theory Spec2Isabelle
  imports Main
begin

section \<open>The calculator's expression evaluator\<close>

text \<open>
  This theory embeds \<^verbatim>\<open>Calculator.evaluate_expression\<close> and
  \<^verbatim>\<open>Calculator.evaluate_simple_expression\<close> of \<^verbatim>\<open>Calculator.py\<close>
  together with the parts of Python they run on: binary64 floats, the conversions between
  floats and decimal strings, and the regular expressions of the \<^verbatim>\<open>re\<close> module.

  A Python string is the list of its code points. Code points are integers here, so that
  comparing them is binary arithmetic.
\<close>

type_synonym ustr = "int list"

definition u :: "string \<Rightarrow> ustr" where
  "u s = map of_char s"

subsection \<open>Python floats\<close>

text \<open>
  A float is an IEEE 754 binary64 value. \<open>Finite s m e\<close> stands for the number
  \<^verbatim>\<open>(-1)^s * m * 2^e\<close>. The operations below produce the canonical form:
  \<open>m < 2 ^ 53\<close>, \<open>- 1074 \<le> e\<close>, \<open>e \<le> 971\<close>, and \<open>2 ^ 52 \<le> m\<close> unless
  \<open>e = - 1074\<close> (zero and the subnormal numbers).
\<close>

datatype pyfloat = Finite bool int int | Infinity bool | NaN

fun valid_float :: "pyfloat \<Rightarrow> bool" where
  "valid_float (Finite s m e) =
     (0 \<le> m \<and> m < 2 ^ 53 \<and> - 1074 \<le> e \<and> e \<le> 971 \<and> (2 ^ 52 \<le> m \<or> e = - 1074))"
| "valid_float (Infinity s) = True"
| "valid_float NaN = True"

function nbits :: "int \<Rightarrow> int" where
  "nbits n = (if n \<le> 0 then 0 else 1 + nbits (n div 2))"
  by pat_completeness auto
termination
  by (relation "measure nat") auto

text \<open>Rounding the quotient \<open>n / d\<close> to an integer, ties to the even neighbour.\<close>

definition rhe :: "int \<Rightarrow> int \<Rightarrow> int" where
  "rhe n d =
     (let q = n div d; r = n mod d
      in if 2 * r < d then q else if d < 2 * r then q + 1 else if even q then q else q + 1)"

text \<open>The integer part of the binary logarithm of \<open>p / q\<close>, for positive \<open>p\<close> and \<open>q\<close>.\<close>

definition flog2 :: "int \<Rightarrow> int \<Rightarrow> int" where
  "flog2 p q =
     (let l = nbits p - nbits q
      in if (if 0 \<le> l then q * 2 ^ nat l \<le> p else q \<le> p * 2 ^ nat (- l)) then l else l - 1)"

text \<open>
  The float nearest to \<open>p / q\<close> (\<open>0 \<le> p\<close>, \<open>0 < q\<close>), ties to even, with sign \<open>s\<close>:
  the rounding of every IEEE operation and of Python's \<^verbatim>\<open>float(str)\<close>.
\<close>

definition round_ratio :: "bool \<Rightarrow> int \<Rightarrow> int \<Rightarrow> pyfloat" where
  "round_ratio s p q =
     (if p = 0 then Finite s 0 (- 1074)
      else let e = max (flog2 p q - 52) (- 1074);
               m = (if e < 0 then rhe (p * 2 ^ nat (- e)) q else rhe p (q * 2 ^ nat e))
           in if m = 2 ^ 53 then (if 971 < e + 1 then Infinity s else Finite s (2 ^ 52) (e + 1))
              else if 971 < e then Infinity s else Finite s m e)"

definition round_scaled :: "bool \<Rightarrow> int \<Rightarrow> int \<Rightarrow> pyfloat" where
  "round_scaled s m e =
     (if 0 \<le> e then round_ratio s (m * 2 ^ nat e) 1 else round_ratio s m (2 ^ nat (- e)))"

definition smant :: "bool \<Rightarrow> int \<Rightarrow> int" where
  "smant s m = (if s then - m else m)"

definition float_zero :: pyfloat where
  "float_zero = Finite False 0 (- 1074)"

fun fneg :: "pyfloat \<Rightarrow> pyfloat" where
  "fneg (Finite s m e) = Finite (\<not> s) m e"
| "fneg (Infinity s) = Infinity (\<not> s)"
| "fneg NaN = NaN"

fun fabs :: "pyfloat \<Rightarrow> pyfloat" where
  "fabs (Finite s m e) = Finite False m e"
| "fabs (Infinity s) = Infinity False"
| "fabs NaN = NaN"

fun fadd :: "pyfloat \<Rightarrow> pyfloat \<Rightarrow> pyfloat" where
  "fadd (Finite s m e) (Finite t n f) =
     (let g = min e f;
          c = smant s m * 2 ^ nat (e - g) + smant t n * 2 ^ nat (f - g)
      in if c = 0 then Finite (s \<and> t) 0 (- 1074) else round_scaled (c < 0) \<bar>c\<bar> g)"
| "fadd (Infinity s) (Infinity t) = (if s = t then Infinity s else NaN)"
| "fadd (Infinity s) (Finite t n f) = Infinity s"
| "fadd (Finite s m e) (Infinity t) = Infinity t"
| "fadd NaN y = NaN"
| "fadd x NaN = NaN"

definition fsub :: "pyfloat \<Rightarrow> pyfloat \<Rightarrow> pyfloat" where
  "fsub x y = fadd x (fneg y)"

fun fmul :: "pyfloat \<Rightarrow> pyfloat \<Rightarrow> pyfloat" where
  "fmul (Finite s m e) (Finite t n f) = round_scaled (s \<noteq> t) (m * n) (e + f)"
| "fmul (Infinity s) (Infinity t) = Infinity (s \<noteq> t)"
| "fmul (Infinity s) (Finite t n f) = (if n = 0 then NaN else Infinity (s \<noteq> t))"
| "fmul (Finite s m e) (Infinity t) = (if m = 0 then NaN else Infinity (s \<noteq> t))"
| "fmul NaN y = NaN"
| "fmul x NaN = NaN"

fun is_zero :: "pyfloat \<Rightarrow> bool" where
  "is_zero (Finite s m e) = (m = 0)"
| "is_zero (Infinity s) = False"
| "is_zero NaN = False"

fun ieee_div :: "pyfloat \<Rightarrow> pyfloat \<Rightarrow> pyfloat" where
  "ieee_div (Finite s m e) (Finite t n f) =
     (if 0 \<le> e - f then round_ratio (s \<noteq> t) (m * 2 ^ nat (e - f)) n
      else round_ratio (s \<noteq> t) m (n * 2 ^ nat (f - e)))"
| "ieee_div (Infinity s) (Infinity t) = NaN"
| "ieee_div (Infinity s) (Finite t n f) = Infinity (s \<noteq> t)"
| "ieee_div (Finite s m e) (Infinity t) = Finite (s \<noteq> t) 0 (- 1074)"
| "ieee_div NaN y = NaN"
| "ieee_div x NaN = NaN"

fun flt :: "pyfloat \<Rightarrow> pyfloat \<Rightarrow> bool" where
  "flt (Finite s m e) (Finite t n f) =
     (let g = min e f in smant s m * 2 ^ nat (e - g) < smant t n * 2 ^ nat (f - g))"
| "flt (Finite s m e) (Infinity t) = (\<not> t)"
| "flt (Infinity s) (Finite t n f) = s"
| "flt (Infinity s) (Infinity t) = (s \<and> \<not> t)"
| "flt NaN y = False"
| "flt x NaN = False"

fun feq :: "pyfloat \<Rightarrow> pyfloat \<Rightarrow> bool" where
  "feq (Finite s m e) (Finite t n f) =
     (let g = min e f in smant s m * 2 ^ nat (e - g) = smant t n * 2 ^ nat (f - g))"
| "feq (Infinity s) (Infinity t) = (s = t)"
| "feq (Finite s m e) (Infinity t) = False"
| "feq (Infinity s) (Finite t n f) = False"
| "feq NaN y = False"
| "feq x NaN = False"

definition fge :: "pyfloat \<Rightarrow> pyfloat \<Rightarrow> bool" where
  "fge x y = (flt y x \<or> feq x y)"

definition fne :: "pyfloat \<Rightarrow> pyfloat \<Rightarrow> bool" where
  "fne x y = (\<not> feq x y)"

subsection \<open>Exceptions\<close>

text \<open>
  The exceptions that the evaluator can meet. A \<open>ValueError\<close> carries its message, which
  the handler of \<^verbatim>\<open>evaluate_expression\<close> inspects. A computation that raises
  returns \<open>Inl\<close>; one that may also fail to return has an \<open>option\<close> around it, and
  \<open>None\<close> is "does not return".
\<close>

datatype exn = ValueError ustr | ZeroDivisionError | TypeError | OverflowError | IndexError

type_synonym 'a comp = "(exn + 'a) option"

definition bindE :: "exn + 'a \<Rightarrow> ('a \<Rightarrow> exn + 'b) \<Rightarrow> exn + 'b" where
  "bindE x f = (case x of Inl e \<Rightarrow> Inl e | Inr v \<Rightarrow> f v)"

text \<open>
  Python's \<^verbatim>\<open>x / y\<close> on floats raises on a zero divisor, whatever \<open>x\<close> is.
\<close>

definition float_truediv :: "pyfloat \<Rightarrow> pyfloat \<Rightarrow> exn + pyfloat" where
  "float_truediv x y = (if is_zero y then Inl ZeroDivisionError else Inr (ieee_div x y))"

function isqrt :: "int \<Rightarrow> int" where
  "isqrt n =
     (if n < 2 then (if n < 1 then 0 else 1)
      else let r = 2 * isqrt (n div 4) in if (r + 1) * (r + 1) \<le> n then r + 1 else r)"
  by pat_completeness auto
termination
  by (relation "measure nat") auto

text \<open>
  The correctly rounded square root of \<^verbatim>\<open>m * 2^e\<close> for \<open>0 < m\<close>: an integer square root
  with at least 55 bits and a sticky bit, rounded once.
\<close>

definition sqrt_pos :: "int \<Rightarrow> int \<Rightarrow> pyfloat" where
  "sqrt_pos m e =
     (let k = max 0 ((111 - e) div 2);
          n = m * 2 ^ nat (e + 2 * k);
          r = isqrt n
      in round_ratio False (2 * r + (if r * r = n then 0 else 1)) (2 ^ nat (k + 1)))"

text \<open>
  \<^verbatim>\<open>math.sqrt\<close>: a negative argument raises \<^verbatim>\<open>ValueError("math domain error")\<close>.
\<close>

definition math_sqrt :: "pyfloat \<Rightarrow> exn + pyfloat" where
  "math_sqrt x =
     (if flt x float_zero then Inl (ValueError (u ''math domain error''))
      else (case x of
              Finite s m e \<Rightarrow> if m = 0 then Inr x else Inr (sqrt_pos m e)
            | Infinity s \<Rightarrow> Inr x
            | NaN \<Rightarrow> Inr x))"

fun is_integer :: "pyfloat \<Rightarrow> bool" where
  "is_integer (Finite s m e) = (0 \<le> e \<or> m mod 2 ^ nat (- e) = 0)"
| "is_integer (Infinity s) = False"
| "is_integer NaN = False"

fun int_of_float :: "pyfloat \<Rightarrow> exn + int" where
  "int_of_float (Finite s m e) =
     Inr (smant s (if 0 \<le> e then m * 2 ^ nat e else m div 2 ^ nat (- e)))"
| "int_of_float (Infinity s) = Inl OverflowError"
| "int_of_float NaN = Inl (ValueError (u ''cannot convert float NaN to integer''))"

definition math_pi :: pyfloat where
  "math_pi = Finite False 7074237752028440 (- 51)"

subsection \<open>Floats and decimal strings\<close>

function dec_digits :: "int \<Rightarrow> ustr" where
  "dec_digits n =
     (if n < 10 then [48 + n mod 10] else dec_digits (n div 10) @ [48 + n mod 10])"
  by pat_completeness auto
termination
  by (relation "measure nat") auto

definition str_int :: "int \<Rightarrow> ustr" where
  "str_int n = (if n < 0 then 45 # dec_digits (- n) else dec_digits n)"

definition zfill :: "nat \<Rightarrow> ustr \<Rightarrow> ustr" where
  "zfill k ds = replicate (k - length ds) 48 @ ds"

function ndigits10 :: "int \<Rightarrow> int" where
  "ndigits10 n = (if n < 10 then 1 else 1 + ndigits10 (n div 10))"
  by pat_completeness auto
termination
  by (relation "measure nat") auto

definition ratio_of :: "int \<Rightarrow> int \<Rightarrow> int \<times> int" where
  "ratio_of m e = (if 0 \<le> e then (m * 2 ^ nat e, 1) else (m, 2 ^ nat (- e)))"

text \<open>The integer part of the decimal logarithm of \<open>p / q\<close>, for positive \<open>p\<close> and \<open>q\<close>.\<close>

definition dec_exp :: "int \<Rightarrow> int \<Rightarrow> int" where
  "dec_exp p q =
     (if q \<le> p then ndigits10 (p div q) - 1 else - ndigits10 ((q + p - 1) div p - 1))"

definition scale10 :: "int \<times> int \<Rightarrow> int \<Rightarrow> int \<times> int" where
  "scale10 pq k =
     (if 0 \<le> k then (fst pq * 10 ^ nat k, snd pq) else (fst pq, snd pq * 10 ^ nat (- k)))"

definition sign_str :: "bool \<Rightarrow> ustr" where
  "sign_str s = (if s then [45] else [])"

text \<open>\<^verbatim>\<open>"{:.8f}".format(x)\<close>: the exact value rounded to 8 decimals, ties to even.\<close>

fun format_8f :: "pyfloat \<Rightarrow> ustr" where
  "format_8f (Finite s m e) =
     (let pq = scale10 (ratio_of m e) 8; n = rhe (fst pq) (snd pq)
      in sign_str s @ dec_digits (n div 10 ^ 8) @ [46] @ zfill 8 (dec_digits (n mod 10 ^ 8)))"
| "format_8f (Infinity s) = sign_str s @ u ''inf''"
| "format_8f NaN = u ''nan''"

definition exp_str :: "int \<Rightarrow> ustr" where
  "exp_str x = [101] @ (if x < 0 then [45] else [43]) @ zfill 2 (dec_digits \<bar>x\<bar>)"

text \<open>\<^verbatim>\<open>"{:.8e}".format(x)\<close>: 9 significant digits and a decimal exponent.\<close>

fun format_8e :: "pyfloat \<Rightarrow> ustr" where
  "format_8e (Finite s m e) =
     (if m = 0 then sign_str s @ u ''0.00000000e+00''
      else let r = ratio_of m e; x = dec_exp (fst r) (snd r);
               pq = scale10 r (8 - x); n = rhe (fst pq) (snd pq);
               n' = (if n = 10 ^ 9 then 10 ^ 8 else n);
               x' = (if n = 10 ^ 9 then x + 1 else x);
               ds = dec_digits n'
           in sign_str s @ take 1 ds @ [46] @ drop 1 ds @ exp_str x')"
| "format_8e (Infinity s) = sign_str s @ u ''inf''"
| "format_8e NaN = u ''nan''"

text \<open>
  \<^verbatim>\<open>str(x)\<close> of a float is the shortest decimal string that reads back as \<open>x\<close>,
  the nearest to \<open>x\<close> among the shortest. \<open>shortest m e x c\<close> tries \<open>17 - c\<close>
  significant digits: the decimals just below and just above the value; 17 digits always
  read back. The result is a pair \<open>(d, k)\<close> standing for \<^verbatim>\<open>d * 10^k\<close>.
\<close>

function strip_tz :: "int \<times> int \<Rightarrow> int \<times> int" where
  "strip_tz dk =
     (if 0 < fst dk \<and> fst dk mod 10 = 0 then strip_tz (fst dk div 10, snd dk + 1) else dk)"
  by pat_completeness auto
termination
  by (relation "measure (\<lambda>dk. nat (fst dk))") auto

definition roundtrips :: "int \<Rightarrow> int \<Rightarrow> int \<Rightarrow> int \<Rightarrow> bool" where
  "roundtrips m e d k =
     (let pq = scale10 (d, 1) k in round_ratio False (fst pq) (snd pq) = Finite False m e)"

fun shortest :: "int \<Rightarrow> int \<Rightarrow> int \<Rightarrow> nat \<Rightarrow> int \<times> int" where
  "shortest m e x 0 =
     (let k = x - 16; pq = scale10 (ratio_of m e) (- k) in (rhe (fst pq) (snd pq), k))"
| "shortest m e x (Suc c) =
     (let k = x - (16 - int (Suc c)); pq = scale10 (ratio_of m e) (- k);
          lo = fst pq div snd pq; hi = lo + 1; r = fst pq mod snd pq;
          lo_ok = roundtrips m e lo k; hi_ok = roundtrips m e hi k
      in if lo_ok \<and> hi_ok then
           (if 2 * r < snd pq \<or> (2 * r = snd pq \<and> even lo) then (lo, k) else (hi, k))
         else if lo_ok then (lo, k)
         else if hi_ok then (hi, k)
         else shortest m e x c)"

definition repr_pos :: "int \<Rightarrow> int \<Rightarrow> ustr" where
  "repr_pos m e =
     (let r = ratio_of m e;
          dk = strip_tz (shortest m e (dec_exp (fst r) (snd r)) 16);
          ds = dec_digits (fst dk);
          nd = int (length ds);
          decpt = nd + snd dk
      in if decpt \<le> - 4 \<or> 16 < decpt then
           take 1 ds @ (if 1 < nd then [46] @ drop 1 ds else []) @ exp_str (decpt - 1)
         else if decpt \<le> 0 then u ''0.'' @ replicate (nat (- decpt)) 48 @ ds
         else if nd \<le> decpt then ds @ replicate (nat (decpt - nd)) 48 @ u ''.0''
         else take (nat decpt) ds @ [46] @ drop (nat decpt) ds)"

fun float_repr :: "pyfloat \<Rightarrow> ustr" where
  "float_repr (Finite s m e) = sign_str s @ (if m = 0 then u ''0.0'' else repr_pos m e)"
| "float_repr (Infinity s) = sign_str s @ u ''inf''"
| "float_repr NaN = u ''nan''"

text \<open>
  \<^verbatim>\<open>float(s)\<close> for a string of decimal digits with at most one point, which is all
  the evaluator ever passes to it (its arguments are matches of \<^verbatim>\<open>\d+\.?\d*\<close>):
  the nearest float. Python reads more spellings (a sign, an exponent, blanks around the
  number); they do not occur, and the model raises on them.
\<close>

definition is_digit :: "int \<Rightarrow> bool" where
  "is_digit c = (48 \<le> c \<and> c \<le> 57)"

definition digits_val :: "ustr \<Rightarrow> int" where
  "digits_val ds = foldl (\<lambda>a c. 10 * a + (c - 48)) 0 ds"

definition float_of_str :: "ustr \<Rightarrow> exn + pyfloat" where
  "float_of_str s =
     (let ip = takeWhile is_digit s;
          r = dropWhile is_digit s;
          r' = (case r of [] \<Rightarrow> [] | c # cs \<Rightarrow> if c = 46 then cs else r);
          fp = takeWhile is_digit r'
      in if dropWhile is_digit r' = [] \<and> ip @ fp \<noteq> []
         then Inr (round_ratio False (digits_val (ip @ fp)) (10 ^ length fp))
         else Inl (ValueError (u ''could not convert string to float'')))"

subsection \<open>Regular expressions\<close>

text \<open>
  The fragment of \<^verbatim>\<open>re\<close> that the patterns of the program use: character classes,
  greedy \<^verbatim>\<open>*\<close> and \<^verbatim>\<open>+\<close> on a class, greedy \<^verbatim>\<open>?\<close>, sequence, alternation and
  capturing groups. \<open>rmatch r s\<close> lists the ways \<open>r\<close> matches a prefix of \<open>s\<close> in the
  order in which a backtracking matcher tries them, each as the matched text, the rest of
  the input and the captured groups; the match that Python reports is the first one.

  The class \<^verbatim>\<open>\d\<close> is the ASCII digits: what the keypad enters and what the program's
  own number strings contain. (Python's \<^verbatim>\<open>\d\<close> also accepts the decimal digits of other
  scripts, which are outside this model.)
\<close>

datatype regex = Atom "int \<Rightarrow> bool" | Star "int \<Rightarrow> bool" | Plus "int \<Rightarrow> bool"
  | Opt regex | Seq regex regex | Alt regex regex | Group regex

fun rmatch :: "regex \<Rightarrow> ustr \<Rightarrow> (ustr \<times> ustr \<times> ustr list) list" where
  "rmatch (Atom p) s = (case s of [] \<Rightarrow> [] | c # cs \<Rightarrow> if p c then [([c], cs, [])] else [])"
| "rmatch (Star p) s =
     map (\<lambda>k. (take k s, drop k s, [])) (rev [0..<Suc (length (takeWhile p s))])"
| "rmatch (Plus p) s =
     map (\<lambda>k. (take k s, drop k s, [])) (rev [1..<Suc (length (takeWhile p s))])"
| "rmatch (Opt r) s = rmatch r s @ [([], s, [])]"
| "rmatch (Seq a b) s =
     concat (map (\<lambda>(m1, s1, g1). map (\<lambda>(m2, s2, g2). (m1 @ m2, s2, g1 @ g2)) (rmatch b s1))
       (rmatch a s))"
| "rmatch (Alt a b) s = rmatch a s @ rmatch b s"
| "rmatch (Group r) s = map (\<lambda>(m, s', g). (m, s', m # g)) (rmatch r s)"

definition match_at :: "regex \<Rightarrow> ustr \<Rightarrow> (ustr \<times> ustr list) option" where
  "match_at r s = (case rmatch r s of [] \<Rightarrow> None | (m, s', g) # _ \<Rightarrow> Some (m, g))"

text \<open>
  One pass over the string, as \<^verbatim>\<open>re.sub\<close>, \<^verbatim>\<open>re.findall\<close> and \<^verbatim>\<open>re.search\<close>
  make it: at each position the pattern is tried; a match is recorded and the scan goes on
  behind it, otherwise the character is passed over. (No pattern of the program matches
  the empty string.)
\<close>

datatype item = Lit int | Match ustr "ustr list"

function scan :: "regex \<Rightarrow> ustr \<Rightarrow> item list" where
  "scan r [] = []"
| "scan r (c # cs) =
     (case match_at r (c # cs) of
        None \<Rightarrow> Lit c # scan r cs
      | Some (m, g) \<Rightarrow>
          if m = [] then Lit c # scan r cs
          else Match m g # scan r (drop (length m) (c # cs)))"
  by pat_completeness auto
termination
  by (relation "measure (\<lambda>(r, s). length s)")
    (auto simp: Suc_diff_Suc dest: length_greater_0_conv [THEN iffD2])

definition re_search :: "regex \<Rightarrow> ustr \<Rightarrow> bool" where
  "re_search r s = list_ex (\<lambda>i. case i of Lit c \<Rightarrow> False | Match m g \<Rightarrow> True) (scan r s)"

definition re_findall :: "regex \<Rightarrow> ustr \<Rightarrow> ustr list" where
  "re_findall r s =
     concat (map (\<lambda>i. case i of Lit c \<Rightarrow> []
                       | Match m g \<Rightarrow> (case g of [] \<Rightarrow> [m] | x # xs \<Rightarrow> [x])) (scan r s))"

text \<open>
  \<^verbatim>\<open>re.sub(pattern, repl, s)\<close> with a function \<open>repl\<close>: the replacements are computed
  from left to right, and the first one that raises or does not return ends the call.
\<close>

fun sub_items :: "(ustr list \<Rightarrow> ustr comp) \<Rightarrow> item list \<Rightarrow> ustr comp" where
  "sub_items f [] = Some (Inr [])"
| "sub_items f (Lit c # is) =
     (case sub_items f is of
        None \<Rightarrow> None
      | Some (Inl e) \<Rightarrow> Some (Inl e)
      | Some (Inr t) \<Rightarrow> Some (Inr (c # t)))"
| "sub_items f (Match m g # is) =
     (case f g of
        None \<Rightarrow> None
      | Some (Inl e) \<Rightarrow> Some (Inl e)
      | Some (Inr rep) \<Rightarrow>
          (case sub_items f is of
             None \<Rightarrow> None
           | Some (Inl e) \<Rightarrow> Some (Inl e)
           | Some (Inr t) \<Rightarrow> Some (Inr (rep @ t))))"

definition re_sub :: "regex \<Rightarrow> (ustr list \<Rightarrow> ustr comp) \<Rightarrow> ustr \<Rightarrow> ustr comp" where
  "re_sub r f s = sub_items f (scan r s)"

subsection \<open>Strings\<close>

fun starts_with :: "ustr \<Rightarrow> ustr \<Rightarrow> bool" where
  "starts_with [] s = True"
| "starts_with (p # ps) [] = False"
| "starts_with (p # ps) (c # cs) = (p = c \<and> starts_with ps cs)"

text \<open>\<^verbatim>\<open>t in s\<close> on strings: \<open>t\<close> occurs in \<open>s\<close> as a substring.\<close>

fun str_in :: "ustr \<Rightarrow> ustr \<Rightarrow> bool" where
  "str_in t [] = (t = [])"
| "str_in t (c # cs) = (starts_with t (c # cs) \<or> str_in t cs)"

text \<open>\<^verbatim>\<open>s.replace(a, new)\<close> for a single character \<open>a\<close>, and \<^verbatim>\<open>s.rstrip(a)\<close>.\<close>

definition replace_char :: "int \<Rightarrow> ustr \<Rightarrow> ustr \<Rightarrow> ustr" where
  "replace_char a new s = concat (map (\<lambda>c. if c = a then new else [c]) s)"

definition rstrip :: "int \<Rightarrow> ustr \<Rightarrow> ustr" where
  "rstrip a s = rev (dropWhile (\<lambda>c. c = a) (rev s))"

subsection \<open>The patterns of the program\<close>

text \<open>
  The code points that occur: \<open>37\<close> is \<^verbatim>\<open>%\<close>, \<open>40\<close> and \<open>41\<close> the parentheses,
  \<open>42\<close> is \<^verbatim>\<open>*\<close>, \<open>43\<close> is \<^verbatim>\<open>+\<close>, \<open>45\<close> is \<^verbatim>\<open>-\<close>, \<open>46\<close> the point,
  \<open>47\<close> is \<^verbatim>\<open>/\<close>, \<open>94\<close> is \<^verbatim>\<open>^\<close>, \<open>215\<close> the multiplication sign, \<open>247\<close> the
  division sign, \<open>960\<close> the letter pi and \<open>8730\<close> the square root sign.
\<close>

definition is_space :: "int \<Rightarrow> bool" where
  "is_space c =
     ((9 \<le> c \<and> c \<le> 13) \<or> (28 \<le> c \<and> c \<le> 32) \<or> c = 133 \<or> c = 160 \<or> c = 5760
      \<or> (8192 \<le> c \<and> c \<le> 8202) \<or> c = 8232 \<or> c = 8233 \<or> c = 8239 \<or> c = 8287 \<or> c = 12288)"

definition chr :: "int \<Rightarrow> int \<Rightarrow> bool" where
  "chr a c = (c = a)"

text \<open>\<^verbatim>\<open>\d+\.?\d*\<close>\<close>

definition number :: regex where
  "number = Seq (Plus is_digit) (Seq (Opt (Atom (chr 46))) (Star is_digit))"

text \<open>\<^verbatim>\<open>\d+\.\d+\.\<close>\<close>

definition pat_malformed :: regex where
  "pat_malformed =
     Seq (Plus is_digit) (Seq (Atom (chr 46)) (Seq (Plus is_digit) (Atom (chr 46))))"

text \<open>\<^verbatim>\<open>@\(([^)]+)\)\<close>, with the square root sign for \<^verbatim>\<open>@\<close>\<close>

definition pat_root_group :: regex where
  "pat_root_group =
     Seq (Atom (chr 8730)) (Seq (Atom (chr 40)) (Seq (Group (Plus (\<lambda>c. c \<noteq> 41))) (Atom (chr 41))))"

text \<open>\<^verbatim>\<open>@(\d+\.?\d*)\<close>\<close>

definition pat_root_number :: regex where
  "pat_root_number = Seq (Atom (chr 8730)) (Group number)"

text \<open>\<^verbatim>\<open>\(([^()]+)\)\<close>\<close>

definition pat_parens :: regex where
  "pat_parens =
     Seq (Atom (chr 40)) (Seq (Group (Plus (\<lambda>c. c \<noteq> 40 \<and> c \<noteq> 41))) (Atom (chr 41)))"

text \<open>\<^verbatim>\<open>@(\d+(?:\.\d+)?)\<close>\<close>

definition pat_root_simple :: regex where
  "pat_root_simple =
     Seq (Atom (chr 8730)) (Group (Seq (Plus is_digit) (Opt (Seq (Atom (chr 46)) (Plus is_digit)))))"

text \<open>\<^verbatim>\<open>(\d+\.?\d*)\s*\*\*\s*(\d+\.?\d*)\<close>\<close>

definition pat_power :: regex where
  "pat_power =
     Seq (Group number) (Seq (Star is_space) (Seq (Atom (chr 42)) (Seq (Atom (chr 42))
       (Seq (Star is_space) (Group number)))))"

text \<open>\<^verbatim>\<open>(\d+\.?\d*%?|[\+\-\xd7\xf7\*\/])\<close>\<close>

definition pat_token :: regex where
  "pat_token =
     Group (Alt (Seq number (Opt (Atom (chr 37))))
                (Atom (\<lambda>c. c = 43 \<or> c = 45 \<or> c = 215 \<or> c = 247 \<or> c = 42 \<or> c = 47)))"

subsection \<open>The linear evaluator\<close>

text \<open>
  Python's \<^verbatim>\<open>float ** float\<close> is the C library's \<^verbatim>\<open>pow\<close>, whose last bit is
  not fixed by any standard. It is a parameter \<open>pw\<close> of the model.
\<close>

type_synonym pow_fn = "pyfloat \<Rightarrow> pyfloat \<Rightarrow> exn + pyfloat"

definition need_float :: "pyfloat option \<Rightarrow> exn + pyfloat" where
  "need_float v = (case v of None \<Rightarrow> Inl TypeError | Some x \<Rightarrow> Inr x)"

text \<open>
  The state of the token loop: \<^verbatim>\<open>current_value\<close> (\<open>None\<close> until the first number)
  and \<^verbatim>\<open>last_operator\<close>. An arithmetic operator applied to \<^verbatim>\<open>None\<close> raises
  \<^verbatim>\<open>TypeError\<close>.
\<close>

type_synonym acc = "pyfloat option \<times> ustr option"

definition reduce_token :: "acc \<Rightarrow> ustr \<Rightarrow> exn + acc" where
  "reduce_token st token =
     (let current_value = fst st; last_operator = snd st in
      if str_in token [43, 45, 215, 247, 42, 47] then Inr (current_value, Some token)
      else if 37 \<in> set token then
        bindE (float_of_str (replace_char 37 [] token)) (\<lambda>x.
        bindE (float_truediv x (round_ratio False 100 1)) (\<lambda>num.
          if last_operator = Some [43] then
            bindE (need_float current_value) (\<lambda>c.
              Inr (Some (fadd c (fmul c num)), last_operator))
          else if last_operator = Some [45] then
            bindE (need_float current_value) (\<lambda>c.
              Inr (Some (fsub c (fmul c num)), last_operator))
          else if last_operator = Some [215] \<or> last_operator = Some [42] then
            bindE (need_float current_value) (\<lambda>c. Inr (Some (fmul c num), last_operator))
          else if last_operator = Some [247] \<or> last_operator = Some [47] then
            bindE (need_float current_value) (\<lambda>c.
            bindE (float_truediv c num) (\<lambda>v. Inr (Some v, last_operator)))
          else Inr (Some num, last_operator)))
      else
        bindE (float_of_str token) (\<lambda>num.
          case current_value of
            None \<Rightarrow> Inr (Some num, last_operator)
          | Some c \<Rightarrow>
              if last_operator = Some [43] then Inr (Some (fadd c num), last_operator)
              else if last_operator = Some [45] then Inr (Some (fsub c num), last_operator)
              else if last_operator = Some [215] \<or> last_operator = Some [42] then
                Inr (Some (fmul c num), last_operator)
              else if last_operator = Some [247] \<or> last_operator = Some [47] then
                bindE (float_truediv c num) (\<lambda>v. Inr (Some v, last_operator))
              else Inr (Some c, last_operator)))"

fun reduce_tokens :: "acc \<Rightarrow> ustr list \<Rightarrow> exn + acc" where
  "reduce_tokens st [] = Inr st"
| "reduce_tokens st (t # ts) = bindE (reduce_token st t) (\<lambda>st'. reduce_tokens st' ts)"

text \<open>
  The three \<^verbatim>\<open>while marker in expr: expr = re.sub(...)\<close> loops of the program have
  one shape. A loop that never ends has the value \<open>None\<close>.
\<close>

partial_function (option) rewrite_loop ::
  "(ustr \<Rightarrow> bool) \<Rightarrow> (ustr \<Rightarrow> ustr comp) \<Rightarrow> ustr \<Rightarrow> ustr comp" where
  "rewrite_loop marker step expr =
     (if marker expr then
        (case step expr of
           None \<Rightarrow> None
         | Some (Inl e) \<Rightarrow> Some (Inl e)
         | Some (Inr expr') \<Rightarrow> rewrite_loop marker step expr')
      else Some (Inr expr))"

declare rewrite_loop.simps [code]

definition power_repl :: "pow_fn \<Rightarrow> ustr list \<Rightarrow> ustr comp" where
  "power_repl pw g =
     (case g of
        a # b # _ \<Rightarrow>
          Some (bindE (float_of_str a) (\<lambda>x. bindE (float_of_str b) (\<lambda>y.
                bindE (pw x y) (\<lambda>r. Inr (float_repr r)))))
      | _ \<Rightarrow> Some (Inl IndexError))"

definition power_loop :: "pow_fn \<Rightarrow> ustr \<Rightarrow> ustr comp" where
  "power_loop pw = rewrite_loop (str_in [42, 42]) (re_sub pat_power (power_repl pw))"

definition sqrt_template :: "ustr list \<Rightarrow> ustr comp" where
  "sqrt_template g =
     (case g of
        a # _ \<Rightarrow> Some (Inr (u ''math.sqrt('' @ a @ u '')''))
      | [] \<Rightarrow> Some (Inl IndexError))"

definition normalize :: "ustr \<Rightarrow> ustr" where
  "normalize expr =
     replace_char 94 [42, 42] (replace_char 960 (float_repr math_pi)
       (replace_char 247 [47] (replace_char 215 [42] expr)))"

definition evaluate_simple_expression :: "pow_fn \<Rightarrow> ustr \<Rightarrow> (pyfloat option) comp" where
  "evaluate_simple_expression pw expr =
     (case re_sub pat_root_simple sqrt_template (normalize expr) of
        None \<Rightarrow> None
      | Some (Inl e) \<Rightarrow> Some (Inl e)
      | Some (Inr expr1) \<Rightarrow>
          (case power_loop pw expr1 of
             None \<Rightarrow> None
           | Some (Inl e) \<Rightarrow> Some (Inl e)
           | Some (Inr expr2) \<Rightarrow>
               Some (bindE (reduce_tokens (None, None) (re_findall pat_token expr2))
                       (\<lambda>st. Inr (fst st)))))"

subsection \<open>\<^verbatim>\<open>evaluate_expression\<close>\<close>

text \<open>
  The replacement functions of the root loop: the text in the parentheses goes through
  \<^verbatim>\<open>evaluate_simple_expression\<close>, \<^verbatim>\<open>float\<close> (which raises \<^verbatim>\<open>TypeError\<close> on
  \<^verbatim>\<open>None\<close>), \<^verbatim>\<open>math.sqrt\<close> and \<^verbatim>\<open>str\<close>.
\<close>

definition root_group_repl :: "pow_fn \<Rightarrow> ustr list \<Rightarrow> ustr comp" where
  "root_group_repl pw g =
     (case g of
        a # _ \<Rightarrow>
          (case evaluate_simple_expression pw a of
             None \<Rightarrow> None
           | Some r \<Rightarrow>
               Some (bindE r (\<lambda>v. bindE (need_float v) (\<lambda>x.
                     bindE (math_sqrt x) (\<lambda>y. Inr (float_repr y))))))
      | [] \<Rightarrow> Some (Inl IndexError))"

definition root_number_repl :: "ustr list \<Rightarrow> ustr comp" where
  "root_number_repl g =
     (case g of
        a # _ \<Rightarrow>
          Some (bindE (float_of_str a) (\<lambda>x. bindE (math_sqrt x) (\<lambda>y. Inr (float_repr y))))
      | [] \<Rightarrow> Some (Inl IndexError))"

definition root_step :: "pow_fn \<Rightarrow> ustr \<Rightarrow> ustr comp" where
  "root_step pw expr =
     (case re_sub pat_root_group (root_group_repl pw) expr of
        None \<Rightarrow> None
      | Some (Inl e) \<Rightarrow> Some (Inl e)
      | Some (Inr expr1) \<Rightarrow> re_sub pat_root_number root_number_repl expr1)"

definition root_loop :: "pow_fn \<Rightarrow> ustr \<Rightarrow> ustr comp" where
  "root_loop pw = rewrite_loop (\<lambda>expr. 8730 \<in> set expr) (root_step pw)"

text \<open>\<^verbatim>\<open>str\<close> of the result of \<^verbatim>\<open>evaluate_simple_expression\<close>.\<close>

definition str_value :: "pyfloat option \<Rightarrow> ustr" where
  "str_value v = (case v of None \<Rightarrow> u ''None'' | Some x \<Rightarrow> float_repr x)"

definition paren_repl :: "pow_fn \<Rightarrow> ustr list \<Rightarrow> ustr comp" where
  "paren_repl pw g =
     (case g of
        a # _ \<Rightarrow>
          (case evaluate_simple_expression pw a of
             None \<Rightarrow> None
           | Some r \<Rightarrow> Some (bindE r (\<lambda>v. Inr (str_value v))))
      | [] \<Rightarrow> Some (Inl IndexError))"

definition paren_loop :: "pow_fn \<Rightarrow> ustr \<Rightarrow> ustr comp" where
  "paren_loop pw = rewrite_loop (\<lambda>expr. 40 \<in> set expr) (re_sub pat_parens (paren_repl pw))"

text \<open>
  The formatting of the result. \<^verbatim>\<open>abs(None)\<close> raises \<^verbatim>\<open>TypeError\<close>. The literals
  \<^verbatim>\<open>1e8\<close> and \<^verbatim>\<open>1e-4\<close> are the floats nearest to these decimals.
\<close>

definition format_result :: "pyfloat option \<Rightarrow> exn + ustr" where
  "format_result res =
     bindE (need_float res) (\<lambda>result.
       if fge (fabs result) (round_ratio False 100000000 1)
          \<or> (flt float_zero (fabs result) \<and> flt (fabs result) (round_ratio False 1 10000)
              \<and> fne result float_zero)
       then Inr (format_8e result)
       else if is_integer result then bindE (int_of_float result) (\<lambda>n. Inr (str_int n))
       else (let formatted = rstrip 46 (rstrip 48 (format_8f result))
             in Inr (if formatted = [] then u ''0'' else formatted)))"

text \<open>The \<^verbatim>\<open>except\<close> clauses.\<close>

definition handler :: "exn \<Rightarrow> ustr" where
  "handler e =
     (case e of
        ValueError msg \<Rightarrow>
          if str_in (u ''math domain error'') msg then u ''Invalid sqrt input'' else u ''Error''
      | ZeroDivisionError \<Rightarrow> u ''Cannot divide by 0''
      | TypeError \<Rightarrow> u ''Error''
      | OverflowError \<Rightarrow> u ''Error''
      | IndexError \<Rightarrow> u ''Error'')"

text \<open>The body of the \<^verbatim>\<open>try\<close> statement behind the input validation.\<close>

definition evaluate_body :: "pow_fn \<Rightarrow> ustr \<Rightarrow> ustr comp" where
  "evaluate_body pw expr =
     (case root_loop pw expr of
        None \<Rightarrow> None
      | Some (Inl e) \<Rightarrow> Some (Inl e)
      | Some (Inr expr1) \<Rightarrow>
          (case paren_loop pw expr1 of
             None \<Rightarrow> None
           | Some (Inl e) \<Rightarrow> Some (Inl e)
           | Some (Inr expr2) \<Rightarrow>
               (case evaluate_simple_expression pw expr2 of
                  None \<Rightarrow> None
                | Some r \<Rightarrow> Some (bindE r format_result))))"

text \<open>
  \<^verbatim>\<open>evaluate_expression\<close> returns a string, or does not return (\<open>None\<close>). The entry
  that it adds to the history list on success is not part of the returned string and is
  left out.
\<close>

definition evaluate_expression :: "pow_fn \<Rightarrow> ustr \<Rightarrow> ustr option" where
  "evaluate_expression pw expr =
     (if 100 < length expr then Some (u ''Input too long'')
      else if count_list expr 40 \<noteq> count_list expr 41 then Some (u ''Unbalanced parentheses'')
      else if re_search pat_malformed expr then Some (u ''Invalid number'')
      else (case evaluate_body pw expr of
              None \<Rightarrow> None
            | Some (Inl e) \<Rightarrow> Some (handler e)
            | Some (Inr formatted) \<Rightarrow> Some formatted))"

text \<open>
  An instance of the power function for closed statements: at an exponent that is a whole
  number and not negative, the exact power rounded once, which is the value of the C library
  wherever the power is itself a float. Other exponents are not modelled: the instance
  raises there, and no statement below evaluates it there.
\<close>

fun pow_whole :: "pyfloat \<Rightarrow> pyfloat \<Rightarrow> exn + pyfloat" where
  "pow_whole (Finite s m e) (Finite t n f) =
     (if is_integer (Finite t n f) \<and> (\<not> t \<or> n = 0) then
        (let k = (if 0 \<le> f then n * 2 ^ nat f else n div 2 ^ nat (- f))
         in case round_scaled (s \<and> odd k) (m ^ nat k) (e * k) of
              Infinity b \<Rightarrow> Inl OverflowError
            | r \<Rightarrow> Inr r)
      else Inl (ValueError (u ''exponent outside the model'')))"
| "pow_whole x y = Inl (ValueError (u ''exponent outside the model''))"



declare nbits.simps [simp del] isqrt.simps [simp del] dec_digits.simps [simp del]
  ndigits10.simps [simp del] strip_tz.simps [simp del]


section \<open>Properties\<close>

subsection \<open>The rewrite loops\<close>




subsection \<open>Tokens\<close>

lemma float_of_str_chars:
  assumes "float_of_str t = Inr x"
  shows "t \<noteq> [] \<and> list_all (\<lambda>c. is_digit c \<or> c = 46) t"
proof -
  let ?r = "dropWhile is_digit t"
  have t: "t = takeWhile is_digit t @ ?r" by simp
  have ip: "list_all is_digit (takeWhile is_digit t)"
    by (simp add: list_all_iff) (meson set_takeWhileD)
  show ?thesis
  proof (cases ?r)
    case Nil
    with assms have "takeWhile is_digit t \<noteq> []"
      by (auto simp: float_of_str_def Let_def split: if_splits)
    moreover from Nil have "takeWhile is_digit t = t"
      by (metis takeWhile_dropWhile_id append_Nil2)
    ultimately show ?thesis using ip by (auto simp: list_all_iff)
  next
    case (Cons c cs)
    then have nd: "\<not> is_digit c" by (metis hd_dropWhile list.distinct(1) list.sel(1))
    show ?thesis
    proof (cases "c = 46")
      case True
      with assms Cons have "dropWhile is_digit cs = []"
        by (auto simp: float_of_str_def Let_def split: if_splits)
      then have "list_all is_digit cs" by (simp add: list_all_iff)
      moreover have "set t = set (takeWhile is_digit t) \<union> set (c # cs)"
        using Cons by (metis set_append takeWhile_dropWhile_id)
      moreover have "t \<noteq> []" using Cons by auto
      ultimately have "t \<noteq> []" and "list_all (\<lambda>c. is_digit c \<or> c = 46) t"
        using ip True by (auto simp: list_all_iff)
      then show ?thesis by simp
    next
      case False
      with assms Cons nd show ?thesis
        by (auto simp: float_of_str_def Let_def split: if_splits)
    qed
  qed
qed

lemma str_in_hd: "str_in (c # t) s \<Longrightarrow> c \<in> set s"
  by (induction s) auto

lemma number_token:
  assumes "float_of_str t = Inr x"
  shows "\<not> str_in t [43, 45, 215, 247, 42, 47]" and "37 \<notin> set t"
proof -
  from float_of_str_chars [OF assms] obtain c cs where t: "t = c # cs"
    and c: "is_digit c \<or> c = 46" and all: "list_all (\<lambda>c. is_digit c \<or> c = 46) t"
    by (cases t) auto
  show "\<not> str_in t [43, 45, 215, 247, 42, 47]"
  proof
    assume "str_in t [43, 45, 215, 247, 42, 47]"
    then have "c \<in> set [43, 45, 215, 247, 42, 47]" unfolding t by (rule str_in_hd)
    with c show False by (auto simp: is_digit_def)
  qed
  show "37 \<notin> set t" using all by (auto simp: list_all_iff is_digit_def)
qed

lemma reduce_token_first:
  "float_of_str t = Inr x \<Longrightarrow> reduce_token (None, lo) t = Inr (Some x, lo)"
  using number_token [of t x] by (simp add: reduce_token_def bindE_def)

lemma reduce_token_operator:
  "c = 43 \<or> c = 45 \<or> c = 215 \<or> c = 247 \<or> c = 42 \<or> c = 47 \<Longrightarrow>
   reduce_token (cv, lo) [c] = Inr (cv, Some [c])"
  by (auto simp: reduce_token_def)

lemma reduce_token_add:
  "float_of_str t = Inr x \<Longrightarrow> reduce_token (Some c, Some [43]) t = Inr (Some (fadd c x), Some [43])"
  using number_token [of t x] by (simp add: reduce_token_def bindE_def)

lemma reduce_token_sub:
  "float_of_str t = Inr x \<Longrightarrow> reduce_token (Some c, Some [45]) t = Inr (Some (fsub c x), Some [45])"
  using number_token [of t x] by (simp add: reduce_token_def bindE_def)

lemma reduce_token_mul:
  "float_of_str t = Inr x \<Longrightarrow> k = 215 \<or> k = 42 \<Longrightarrow>
   reduce_token (Some c, Some [k]) t = Inr (Some (fmul c x), Some [k])"
  using number_token [of t x] by (auto simp: reduce_token_def bindE_def)

lemma reduce_token_div:
  "float_of_str t = Inr x \<Longrightarrow> k = 247 \<or> k = 47 \<Longrightarrow>
   reduce_token (Some c, Some [k]) t = bindE (float_truediv c x) (\<lambda>v. Inr (Some v, Some [k]))"
  using number_token [of t x] by (auto simp: reduce_token_def bindE_def)

lemma leading_ops_aux:
  assumes "float_of_str t = Inr x"
  shows "list_all (\<lambda>c. c = 43 \<or> c = 45 \<or> c = 215 \<or> c = 247 \<or> c = 42 \<or> c = 47) os \<Longrightarrow>
    reduce_tokens (None, lo) (map (\<lambda>c. [c]) os @ t # rest)
      = reduce_tokens (Some x, if os = [] then lo else Some [last os]) rest"
proof (induction os arbitrary: lo)
  case Nil
  show ?case using reduce_token_first [OF assms] by (simp add: bindE_def)
next
  case (Cons c os)
  then have c: "c = 43 \<or> c = 45 \<or> c = 215 \<or> c = 247 \<or> c = 42 \<or> c = 47" by simp
  show ?case using Cons reduce_token_operator [OF c, of None lo] by (simp add: bindE_def)
qed

text \<open>
  Claim C10. In the linear evaluator an operator token that comes before the first number
  token is discarded: while \<^verbatim>\<open>current_value\<close> is unset, the next number token
  sets it and the pending operator is not applied. So a leading minus sign is lost:
  \<^verbatim>\<open>evaluate("-5")\<close> returns \<^verbatim>\<open>"5"\<close> and \<^verbatim>\<open>evaluate("-5+3")\<close> returns
  \<^verbatim>\<open>"8"\<close>.
\<close>

theorem leading_operator_discarded:
  assumes "list_all (\<lambda>c. c = 43 \<or> c = 45 \<or> c = 215 \<or> c = 247 \<or> c = 42 \<or> c = 47) os"
    and "float_of_str t = Inr x"
  shows "reduce_tokens (None, None) (map (\<lambda>c. [c]) os @ t # rest)
           = reduce_tokens (Some x, if os = [] then None else Some [last os]) rest
         \<and> evaluate_expression pw (u ''-5'') = Some (u ''5'')
         \<and> evaluate_expression pw (u ''-5+3'') = Some (u ''8'')"
proof -
  have a: "evaluate_expression pw (u ''-5'') = Some (u ''5'')" by code_simp
  have b: "evaluate_expression pw (u ''-5+3'') = Some (u ''8'')" by code_simp
  show ?thesis using leading_ops_aux [OF assms(2) assms(1)] a b by simp
qed

theorem leading_operator_discarded_witness:
  "list_all (\<lambda>c. c = 43 \<or> c = 45 \<or> c = 215 \<or> c = 247 \<or> c = 42 \<or> c = 47) [45 :: int]
   \<and> float_of_str (u ''5'') = Inr (Finite False 5629499534213120 (- 50))
   \<and> reduce_tokens (None, None) [[45], u ''5'', [43], u ''3'']
       = reduce_tokens (Some (Finite False 5629499534213120 (- 50)), Some [45]) [[43], u ''3'']
   \<and> evaluate_expression pow_whole (u ''-5'') = Some (u ''5'')
   \<and> evaluate_expression pow_whole (u ''-5+3'') = Some (u ''8'')"
proof -
  have h1: "list_all (\<lambda>c. c = 43 \<or> c = 45 \<or> c = 215 \<or> c = 247 \<or> c = 42 \<or> c = 47) [45 :: int]"
    by simp
  have h2: "float_of_str (u ''5'') = Inr (Finite False 5629499534213120 (- 50))" by code_simp
  show ?thesis
    using leading_operator_discarded [OF h1 h2, of "[[43], u ''3'']" pow_whole] h1 h2 by simp
qed

lemma reduce_tokens_step:
  "reduce_tokens st (a # b # rest) =
     bindE (reduce_token st a) (\<lambda>s1. bindE (reduce_token s1 b) (\<lambda>s2. reduce_tokens s2 rest))"
  by simp

text \<open>
  Claim C5. The linear evaluator applies the operators strictly from left to right, with no
  precedence: each operator is applied to the running value and the number that follows
  it, in token order. \<^verbatim>\<open>evaluate("2+3x4")\<close> returns \<^verbatim>\<open>"20"\<close>, not
  \<^verbatim>\<open>"14"\<close>, and \<^verbatim>\<open>evaluate("10/2x5")\<close> returns \<^verbatim>\<open>"25"\<close> (with the
  multiplication and division signs of the keypad).
\<close>
theorem no_operator_precedence:
  assumes "float_of_str a = Inr x"
  shows "reduce_tokens (Some c, lo) ([43] # a # rest) = reduce_tokens (Some (fadd c x), Some [43]) rest
       \<and> reduce_tokens (Some c, lo) ([45] # a # rest) = reduce_tokens (Some (fsub c x), Some [45]) rest
       \<and> reduce_tokens (Some c, lo) ([215] # a # rest) = reduce_tokens (Some (fmul c x), Some [215]) rest
       \<and> reduce_tokens (Some c, lo) ([247] # a # rest)
           = bindE (float_truediv c x) (\<lambda>v. reduce_tokens (Some v, Some [247]) rest)
       \<and> evaluate_expression pw (u ''2+3'' @ [215] @ u ''4'') = Some (u ''20'')
       \<and> evaluate_expression pw (u ''10'' @ [247] @ u ''2'' @ [215] @ u ''5'') = Some (u ''25'')"
proof -
  have e1: "evaluate_expression pw (u ''2+3'' @ [215] @ u ''4'') = Some (u ''20'')"
    by code_simp
  have e2: "evaluate_expression pw (u ''10'' @ [247] @ u ''2'' @ [215] @ u ''5'') = Some (u ''25'')"
    by code_simp
  have 1: "reduce_tokens (Some c, lo) ([43] # a # rest) = reduce_tokens (Some (fadd c x), Some [43]) rest"
    unfolding reduce_tokens_step
    by (simp add: reduce_token_operator reduce_token_add [OF assms] bindE_def)
  have 2: "reduce_tokens (Some c, lo) ([45] # a # rest) = reduce_tokens (Some (fsub c x), Some [45]) rest"
    unfolding reduce_tokens_step
    by (simp add: reduce_token_operator reduce_token_sub [OF assms] bindE_def)
  have 3: "reduce_tokens (Some c, lo) ([215] # a # rest) = reduce_tokens (Some (fmul c x), Some [215]) rest"
    unfolding reduce_tokens_step
    by (simp add: reduce_token_operator reduce_token_mul [OF assms] bindE_def)
  have 4: "reduce_tokens (Some c, lo) ([247] # a # rest)
           = bindE (float_truediv c x) (\<lambda>v. reduce_tokens (Some v, Some [247]) rest)"
    unfolding reduce_tokens_step
    by (simp add: reduce_token_operator reduce_token_div [OF assms] bindE_def split: sum.splits)
  show ?thesis using 1 2 3 4 e1 e2 by simp
qed

theorem no_operator_precedence_witness:
  "float_of_str (u ''4'') = Inr (Finite False 4503599627370496 (- 50))
   \<and> reduce_tokens (Some (Finite False 5629499534213120 (- 50)), Some [43]) [[215], u ''4'']
       = Inr (Some (Finite False 5629499534213120 (- 48)), Some [215])
   \<and> evaluate_expression pow_whole (u ''2+3'' @ [215] @ u ''4'') = Some (u ''20'')"
proof -
  have h: "float_of_str (u ''4'') = Inr (Finite False 4503599627370496 (- 50))" by code_simp
  have m: "fmul (Finite False 5629499534213120 (- 50)) (Finite False 4503599627370496 (- 50))
             = Finite False 5629499534213120 (- 48)" by code_simp
  show ?thesis
    using no_operator_precedence [OF h, of "Finite False 5629499534213120 (- 50)" "Some [43]" "[]" pow_whole] h m
    by simp
qed

text \<open>
  Claim C2 says that nested roots are resolved innermost first, so that the square root of
  the square root of 16 gives \<^verbatim>\<open>"2"\<close>. The pattern of the root loop excludes only the
  closing parenthesis from the group, so its first match starts at the outer root sign and
  ends at the first closing parenthesis; the group is the inner root sign, an opening
  parenthesis and 16, which the linear evaluator reads as 16. The result is \<^verbatim>\<open>"4"\<close>.
\<close>
theorem nested_root_outermost_first:
  "scan pat_root_group ([8730] @ u ''('' @ [8730] @ u ''(16))'')
     = [Match ([8730] @ u ''('' @ [8730] @ u ''(16)'') [[8730] @ u ''(16''], Lit 41]
   \<and> evaluate_expression pw ([8730] @ u ''('' @ [8730] @ u ''(16))'') = Some (u ''4'')"
proof -
  have a: "scan pat_root_group ([8730] @ u ''('' @ [8730] @ u ''(16))'')
     = [Match ([8730] @ u ''('' @ [8730] @ u ''(16)'') [[8730] @ u ''(16''], Lit 41]" by code_simp
  have b: "evaluate_expression pw ([8730] @ u ''('' @ [8730] @ u ''(16))'') = Some (u ''4'')" by code_simp
  show ?thesis using a b by simp
qed

lemma hundred_value: "round_ratio False 100 1 = Finite False 7036874417766400 (- 46)"
  by code_simp

lemma replace_char_absent: "a \<notin> set s \<Longrightarrow> replace_char a new s = s"
  by (induction s) (auto simp: replace_char_def)

lemma replace_percent: "37 \<notin> set t \<Longrightarrow> replace_char 37 [] (t @ [37]) = t"
  using replace_char_absent [of 37 t "[]"] by (simp add: replace_char_def)

lemma percent_token:
  assumes "float_of_str t = Inr x"
  shows "\<not> str_in (t @ [37]) [43, 45, 215, 247, 42, 47]"
    and "replace_char 37 [] (t @ [37]) = t"
proof -
  from float_of_str_chars [OF assms] obtain c cs where t: "t = c # cs"
    and c: "is_digit c \<or> c = 46"
    by (cases t) auto
  show "\<not> str_in (t @ [37]) [43, 45, 215, 247, 42, 47]"
  proof
    assume "str_in (t @ [37]) [43, 45, 215, 247, 42, 47]"
    then have "c \<in> set [43, 45, 215, 247, 42, 47]" unfolding t by (simp only: append_Cons) (rule str_in_hd)
    with c show False by (auto simp: is_digit_def)
  qed
  show "replace_char 37 [] (t @ [37]) = t" using number_token(2) [OF assms] by (rule replace_percent)
qed

lemma reduce_token_percent:
  assumes "float_of_str t = Inr x"
  shows "reduce_token (cv, lo) (t @ [37]) =
     (let num = ieee_div x (round_ratio False 100 1) in
      if lo = Some [43] then bindE (need_float cv) (\<lambda>c. Inr (Some (fadd c (fmul c num)), lo))
      else if lo = Some [45] then bindE (need_float cv) (\<lambda>c. Inr (Some (fsub c (fmul c num)), lo))
      else if lo = Some [215] \<or> lo = Some [42] then bindE (need_float cv) (\<lambda>c. Inr (Some (fmul c num), lo))
      else if lo = Some [247] \<or> lo = Some [47] then
        bindE (need_float cv) (\<lambda>c. bindE (float_truediv c num) (\<lambda>v. Inr (Some v, lo)))
      else Inr (Some num, lo))"
  using percent_token [OF assms]
  by (simp add: reduce_token_def assms bindE_def float_truediv_def hundred_value Let_def)

text \<open>
  Claim C6. A percentage token is combined with the running value according to the pending
  operator. Its number is first divided by 100. After \<^verbatim>\<open>+\<close> the running value gains
  (and after \<^verbatim>\<open>-\<close> loses) the running value times that fraction; after the
  multiplication or division sign the running value is multiplied or divided by the
  fraction itself. \<^verbatim>\<open>evaluate("200+10%")\<close> returns \<^verbatim>\<open>"220"\<close> and
  \<^verbatim>\<open>evaluate("200x10%")\<close> returns \<^verbatim>\<open>"20"\<close>.
\<close>
theorem percentage_on_pending_operator:
  assumes "float_of_str t = Inr x" and "fraction = ieee_div x (round_ratio False 100 1)"
  shows "reduce_token (Some c, Some [43]) (t @ [37]) = Inr (Some (fadd c (fmul c fraction)), Some [43])
       \<and> reduce_token (Some c, Some [45]) (t @ [37]) = Inr (Some (fsub c (fmul c fraction)), Some [45])
       \<and> reduce_token (Some c, Some [215]) (t @ [37]) = Inr (Some (fmul c fraction), Some [215])
       \<and> reduce_token (Some c, Some [247]) (t @ [37])
           = bindE (float_truediv c fraction) (\<lambda>v. Inr (Some v, Some [247]))
       \<and> evaluate_expression pw (u ''200+10%'') = Some (u ''220'')
       \<and> evaluate_expression pw (u ''200'' @ [215] @ u ''10%'') = Some (u ''20'')"
proof -
  have e1: "evaluate_expression pw (u ''200+10%'') = Some (u ''220'')" by code_simp
  have e2: "evaluate_expression pw (u ''200'' @ [215] @ u ''10%'') = Some (u ''20'')" by code_simp
  show ?thesis
    using e1 e2 by (simp add: reduce_token_percent [OF assms(1)] assms(2) need_float_def bindE_def)
qed

theorem percentage_on_pending_operator_witness:
  "float_of_str (u ''10'') = Inr (Finite False 5629499534213120 (- 49))
   \<and> Finite False 7205759403792794 (- 56) = ieee_div (Finite False 5629499534213120 (- 49)) (round_ratio False 100 1)
   \<and> reduce_token (Some (Finite False 7036874417766400 (- 45)), Some [43]) (u ''10'' @ [37])
       = Inr (Some (Finite False 7740561859543040 (- 45)), Some [43])
   \<and> reduce_token (Some (Finite False 7036874417766400 (- 45)), Some [215]) (u ''10'' @ [37])
       = Inr (Some (Finite False 5629499534213120 (- 48)), Some [215])"
proof -
  have h1: "float_of_str (u ''10'') = Inr (Finite False 5629499534213120 (- 49))" by code_simp
  have h2: "Finite False 7205759403792794 (- 56)
      = ieee_div (Finite False 5629499534213120 (- 49)) (round_ratio False 100 1)" by code_simp
  have a: "fmul (Finite False 7036874417766400 (- 45)) (Finite False 7205759403792794 (- 56))
      = Finite False 5629499534213120 (- 48)" by code_simp
  have b: "fadd (Finite False 7036874417766400 (- 45)) (Finite False 5629499534213120 (- 48))
      = Finite False 7740561859543040 (- 45)" by code_simp
  show ?thesis
    using percentage_on_pending_operator [OF h1 h2, of "Finite False 7036874417766400 (- 45)" pow_whole]
      h1 h2 a b by simp
qed





lemma positive_not_zero: "flt float_zero (fabs v) \<Longrightarrow> fne v float_zero"
  by (cases v) (auto simp: float_zero_def fne_def smant_def Let_def zero_less_mult_iff)

lemma format_result_scientific:
  assumes "fge (fabs v) (round_ratio False 100000000 1)
           \<or> (flt float_zero (fabs v) \<and> flt (fabs v) (round_ratio False 1 10000))"
  shows "format_result (Some v) = Inr (format_8e v)"
  using assms positive_not_zero [of v] by (auto simp: format_result_def need_float_def bindE_def)

text \<open>C7x\<close>
theorem format_at_1e8_counterexample:
  "evaluate_expression pow_whole (u ''100000000'') = Some (u ''1.00000000e+08'')
   \<and> evaluate_expression pow_whole (u ''100000000'') \<noteq> Some (u ''100000000'')"
proof -
  have a: "evaluate_expression pow_whole (u ''100000000'') = Some (u ''1.00000000e+08'')"
    by code_simp
  have b: "u ''1.00000000e+08'' \<noteq> u ''100000000''" by code_simp
  show ?thesis using a b by simp
qed

text \<open>
  Claim C7, amended. The threshold of scientific notation includes the boundary: a final
  value of exactly 100000000 is formatted \<^verbatim>\<open>"1.00000000e+08"\<close> (and 99999999 is the
  plain \<^verbatim>\<open>"99999999"\<close>). Every value of magnitude at least \<^verbatim>\<open>1e8\<close>, or of
  magnitude above 0 and below \<^verbatim>\<open>1e-4\<close>, is formatted by \<^verbatim>\<open>"{:.8e}"\<close>, in
  scientific notation with 8 digits after the decimal point. A value of 2.5 is formatted
  \<^verbatim>\<open>"2.5"\<close>, the trailing zeros stripped.
\<close>
theorem scientific_notation_thresholds:
  "format_result (Some (round_ratio False 100000000 1)) = Inr (u ''1.00000000e+08'')
   \<and> (fge (fabs v) (round_ratio False 100000000 1)
        \<or> (flt float_zero (fabs v) \<and> flt (fabs v) (round_ratio False 1 10000))
       \<longrightarrow> format_result (Some v) = Inr (format_8e v))
   \<and> evaluate_expression pw (u ''99999999'') = Some (u ''99999999'')
   \<and> evaluate_expression pw (u ''0.00001'') = Some (u ''1.00000000e-05'')
   \<and> evaluate_expression pw (u ''2.5'') = Some (u ''2.5'')"
proof -
  have a: "format_result (Some (round_ratio False 100000000 1)) = Inr (u ''1.00000000e+08'')"
    by code_simp
  have b: "evaluate_expression pw (u ''99999999'') = Some (u ''99999999'')" by code_simp
  have c: "evaluate_expression pw (u ''0.00001'') = Some (u ''1.00000000e-05'')" by code_simp
  have d: "evaluate_expression pw (u ''2.5'') = Some (u ''2.5'')" by code_simp
  show ?thesis using a b c d format_result_scientific [of v] by blast
qed

theorem scientific_notation_thresholds_witness:
  "flt float_zero (fabs (round_ratio True 1 100000))
   \<and> flt (fabs (round_ratio True 1 100000)) (round_ratio False 1 10000)
   \<and> format_result (Some (round_ratio True 1 100000)) = Inr (u ''-1.00000000e-05'')
   \<and> evaluate_expression pow_whole (u ''2.5'') = Some (u ''2.5'')"
proof -
  have h1: "flt float_zero (fabs (round_ratio True 1 100000))" by code_simp
  have h2: "flt (fabs (round_ratio True 1 100000)) (round_ratio False 1 10000)" by code_simp
  have e: "format_8e (round_ratio True 1 100000) = u ''-1.00000000e-05''" by code_simp
  show ?thesis
    using scientific_notation_thresholds [of "round_ratio True 1 100000" pow_whole] h1 h2 e
    by simp
qed


















lemma rmatch_Group_elim:
  assumes "(m, s', g) \<in> set (rmatch (Group r) s)"
  obtains g' where "(m, s', g') \<in> set (rmatch r s)" and "g = m # g'"
  using assms by auto




















end
